theory Spec2Isabelle
  imports Main "HOL-Library.Word"
begin

section \<open>Package client: construction of the retrying HTTP client\<close>

text \<open>
  A shallow embedding of \<^verbatim>\<open>src/client/httpclient.go\<close>. Go strings are byte
  strings (\<open>string\<close>, a \<open>char list\<close>). A Go function with several results is a
  function into a tuple, a \<^verbatim>\<open>nil\<close> pointer or a \<^verbatim>\<open>nil\<close> error is
  \<open>None\<close>. The operating system and the libraries outside the repository are the
  record \<open>env\<close>, and every function that calls into them also returns the list of the
  calls it made, in order.
\<close>

subsection \<open>Constants\<close>

type_synonym Duration = "64 word"
  \<comment> \<open>\<^verbatim>\<open>time.Duration\<close>: an \<^verbatim>\<open>int64\<close> count of nanoseconds, read by \<open>sint\<close>\<close>

definition time_Second :: Duration where
  "time_Second = 1000000000"

definition socketBaseURL :: string where
  "socketBaseURL = ''http://unix''"

definition unixSocketProtocol :: string where
  "unixSocketProtocol = ''http+unix://''"

definition httpProtocol :: string where
  "httpProtocol = ''http://''"

definition httpsProtocol :: string where
  "httpsProtocol = ''https://''"

definition defaultReadTimeoutSeconds :: "64 word" where
  "defaultReadTimeoutSeconds = 300"

definition defaultRetryWaitMinimum :: Duration where
  "defaultRetryWaitMinimum = time_Second"

definition defaultRetryWaitMaximum :: Duration where
  "defaultRetryWaitMaximum = 15 * time_Second"

definition defaultRetryMax :: int where
  "defaultRetryMax = 2"

subsection \<open>Errors\<close>

datatype errno = ENOENT | EACCES | ENOTDIR | EIO

datatype error =
    ErrorString string
      \<comment> \<open>\<^verbatim>\<open>errors.New(msg)\<close>, and the errors of the crypto libraries\<close>
  | WrapError string error
      \<comment> \<open>\<^verbatim>\<open>fmt.Errorf\<close> with a \<^verbatim>\<open>%w\<close> verb: the formatted message, the wrapped error\<close>
  | PathError string string errno
      \<comment> \<open>\<^verbatim>\<open>*fs.PathError\<close>: operation, path, system error\<close>

fun errno_Error :: "errno \<Rightarrow> string" where
  "errno_Error ENOENT = ''no such file or directory''"
| "errno_Error EACCES = ''permission denied''"
| "errno_Error ENOTDIR = ''not a directory''"
| "errno_Error EIO = ''input/output error''"

fun Error :: "error \<Rightarrow> string" where
  "Error (ErrorString s) = s"
| "Error (WrapError s e) = s"
| "Error (PathError op path e) = op @ '' '' @ path @ '': '' @ errno_Error e"

fun errors_Is :: "error \<Rightarrow> error \<Rightarrow> bool" where
  "errors_Is (WrapError s e) target = (WrapError s e = target \<or> errors_Is e target)"
| "errors_Is e target = (e = target)"

text \<open>
  \<^verbatim>\<open>os.IsNotExist\<close> looks at the system error under a \<^verbatim>\<open>*fs.PathError\<close>, which is
  what \<^verbatim>\<open>os.Stat\<close> returns.
\<close>

fun os_IsNotExist :: "error \<Rightarrow> bool" where
  "os_IsNotExist (PathError op path e) = (e = ENOENT)"
| "os_IsNotExist e = False"

definition ErrCafileNotFound :: error where
  "ErrCafileNotFound = ErrorString ''cafile not found''"

subsection \<open>Functions of package strings\<close>

definition HasPrefix :: "string \<Rightarrow> string \<Rightarrow> bool" where
  "HasPrefix s pre = (length pre \<le> length s \<and> take (length pre) s = pre)"

definition TrimPrefix :: "string \<Rightarrow> string \<Rightarrow> string" where
  "TrimPrefix s pre = (if HasPrefix s pre then drop (length pre) s else s)"

definition TrimLeft :: "string \<Rightarrow> string \<Rightarrow> string" where
  "TrimLeft s cutset = dropWhile (\<lambda>c. c \<in> set cutset) s"

definition TrimRight :: "string \<Rightarrow> string \<Rightarrow> string" where
  "TrimRight s cutset = rev (dropWhile (\<lambda>c. c \<in> set cutset) (rev s))"

definition Trim :: "string \<Rightarrow> string \<Rightarrow> string" where
  "Trim s cutset = TrimRight (TrimLeft s cutset) cutset"

subsection \<open>The environment\<close>

type_synonym certificate = string
  \<comment> \<open>an X.509 certificate, identified by its raw encoding\<close>

type_synonym CertPool = "certificate list"

record tls_Certificate =
  Certificate :: "certificate list"
  PrivateKey :: string

record DirEntry =
  Name :: string
  IsDir :: bool

record env =
  os_Stat :: "string \<Rightarrow> error option"
  os_ReadFile :: "string \<Rightarrow> error + string"
  os_ReadDir :: "string \<Rightarrow> DirEntry list \<times> error option"
  x509_SystemCertPool :: "error + CertPool"
  pem_certificates :: "string \<Rightarrow> certificate list"
  tls_LoadX509KeyPair :: "string \<Rightarrow> string \<Rightarrow> error + tls_Certificate"
  filepath_Join :: "string \<Rightarrow> string \<Rightarrow> string"
  filepath_Clean :: "string \<Rightarrow> string"

datatype call =
    Stat string
  | SystemCertPool
  | ReadFile string
  | ReadDir string
  | LoadX509KeyPair string string

text \<open>
  \<^verbatim>\<open>(*CertPool).AddCert\<close> skips a certificate the pool already holds;
  \<^verbatim>\<open>AppendCertsFromPEM\<close> adds every certificate decoded from the bytes.
\<close>

definition AddCert :: "CertPool \<Rightarrow> certificate \<Rightarrow> CertPool" where
  "AddCert pool c = (if c \<in> set pool then pool else pool @ [c])"

definition AppendCertsFromPEM :: "env \<Rightarrow> CertPool \<Rightarrow> string \<Rightarrow> CertPool" where
  "AppendCertsFromPEM w pool pemCerts = foldl AddCert pool (pem_certificates w pemCerts)"

definition x509_NewCertPool :: CertPool where
  "x509_NewCertPool = []"

subsection \<open>Transports and clients\<close>

datatype 'ctx dial = Dial 'ctx string string
  \<comment> \<open>a call \<^verbatim>\<open>net.Dialer{}.DialContext(ctx, network, address)\<close>\<close>

record tls_Config =
  RootCAs :: CertPool
  MinVersion :: "16 word"
  Certificates :: "tls_Certificate list"

definition tls_VersionTLS12 :: "16 word" where
  "tls_VersionTLS12 = 0x0303"

record 'ctx http_Transport =
  DialContext :: "('ctx \<Rightarrow> string \<Rightarrow> string \<Rightarrow> 'ctx dial) option"
  TLSClientConfig :: "tls_Config option"

datatype 'ctx RoundTripper = DefaultPooledTransport | Wrapped "'ctx http_Transport option"

text \<open>
  Modelled from the spec: \<^verbatim>\<open>NewTransport\<close> is declared in a file of package client
  that is not among the sources. The client assembler "installs the built transport as
  the underlying transport".
\<close>

definition NewTransport :: "'ctx http_Transport option \<Rightarrow> 'ctx RoundTripper" where
  "NewTransport t = Wrapped t"

datatype Logger = DefaultLogger

record 'ctx http_Client =
  Transport :: "'ctx RoundTripper"
  Timeout :: Duration

record 'ctx retryablehttp_Client =
  HTTPClient :: "'ctx http_Client"
  Logger :: "Logger option"
  RetryWaitMin :: Duration
  RetryWaitMax :: Duration
  RetryMax :: int

text \<open>\<^verbatim>\<open>retryablehttp.NewClient()\<close> with the defaults of the library.\<close>

definition retryablehttp_NewClient :: "unit \<Rightarrow> 'ctx retryablehttp_Client" where
  "retryablehttp_NewClient _ =
     \<lparr>HTTPClient = \<lparr>Transport = DefaultPooledTransport, Timeout = 0\<rparr>,
      Logger = Some DefaultLogger,
      RetryWaitMin = 1 * time_Second,
      RetryWaitMax = 30 * time_Second,
      RetryMax = 4\<rparr>"

record 'ctx HTTPClient_t =
  RetryableHTTP :: "'ctx retryablehttp_Client"
  Host :: string

subsection \<open>Configuration and options\<close>

record httpClientCfg =
  keyPath :: string
  certPath :: string
  caFile :: string
  caPath :: string
  retryWaitMin :: Duration
  retryWaitMax :: Duration
  retryMax :: int

definition HaveCertAndKey :: "httpClientCfg \<Rightarrow> bool" where
  "HaveCertAndKey hcc = (keyPath hcc \<noteq> [] \<and> certPath hcc \<noteq> [])"

type_synonym HTTPClientOpt = "httpClientCfg \<Rightarrow> httpClientCfg"
  \<comment> \<open>\<^verbatim>\<open>func(*httpClientCfg)\<close>: the configuration behind the pointer, updated\<close>

definition WithClientCert :: "string \<Rightarrow> string \<Rightarrow> HTTPClientOpt" where
  "WithClientCert certPath' keyPath' = (\<lambda>hcc. hcc\<lparr>keyPath := keyPath', certPath := certPath'\<rparr>)"

definition WithHTTPRetryOpts :: "Duration \<Rightarrow> Duration \<Rightarrow> int \<Rightarrow> HTTPClientOpt" where
  "WithHTTPRetryOpts waitMin waitMax maxAttempts =
     (\<lambda>hcc. hcc\<lparr>retryWaitMin := waitMin, retryWaitMax := waitMax, retryMax := maxAttempts\<rparr>)"

text \<open>The loop \<^verbatim>\<open>for _, opt := range opts { opt(hcc) }\<close> of \<^verbatim>\<open>NewHTTPClientWithOpts\<close>.\<close>

fun applyOpts :: "HTTPClientOpt list \<Rightarrow> httpClientCfg \<Rightarrow> httpClientCfg" where
  "applyOpts [] hcc = hcc"
| "applyOpts (opt # opts) hcc = applyOpts opts (opt hcc)"

text \<open>The composite literal that seeds the configuration.\<close>

definition initialCfg :: "string \<Rightarrow> string \<Rightarrow> httpClientCfg" where
  "initialCfg caFile' caPath' =
     \<lparr>keyPath = [], certPath = [], caFile = caFile', caPath = caPath',
      retryWaitMin = defaultRetryWaitMinimum,
      retryWaitMax = defaultRetryWaitMaximum,
      retryMax = defaultRetryMax\<rparr>"

subsection \<open>The functions of the package\<close>

definition fmt_cafile :: "string \<Rightarrow> error \<Rightarrow> error" where
  \<comment> \<open>\<^verbatim>\<open>fmt.Errorf("cannot find cafile '%s': %w", filename, err)\<close>\<close>
  "fmt_cafile filename err =
     WrapError (''cannot find cafile '' @ [CHR 0x27] @ filename @ [CHR 0x27] @ '': '' @ Error err) err"

definition validateCaFile :: "env \<Rightarrow> string \<Rightarrow> error option \<times> call list" where
  "validateCaFile w filename =
     (if filename = [] then (None, [])
      else case os_Stat w filename of
             Some err \<Rightarrow>
               if os_IsNotExist err then (Some (fmt_cafile filename ErrCafileNotFound), [Stat filename])
               else (Some err, [Stat filename])
           | None \<Rightarrow> (None, [Stat filename]))"

definition buildSocketTransport :: "string \<Rightarrow> string \<Rightarrow> 'ctx http_Transport option \<times> string" where
  "buildSocketTransport gitlabURL gitlabRelativeURLRoot =
     (let socketPath = TrimPrefix gitlabURL unixSocketProtocol;
          transport = Some \<lparr>DialContext = Some (\<lambda>ctx _ _. Dial ctx ''unix'' socketPath),
                            TLSClientConfig = None\<rparr>;
          host = socketBaseURL;
          gitlabRelativeURLRoot = Trim gitlabRelativeURLRoot ''/'';
          host = (if gitlabRelativeURLRoot \<noteq> [] then host @ ''/'' @ gitlabRelativeURLRoot else host)
      in (transport, host))"

definition addCertToPool :: "env \<Rightarrow> CertPool \<Rightarrow> string \<Rightarrow> CertPool \<times> call list" where
  "addCertToPool w certPool fileName =
     (let name = filepath_Clean w fileName
      in case os_ReadFile w name of
           Inr cert \<Rightarrow> (AppendCertsFromPEM w certPool cert, [ReadFile name])
         | Inl err \<Rightarrow> (certPool, [ReadFile name]))"

text \<open>The loop over the directory entries in \<^verbatim>\<open>buildHTTPSTransport\<close>.\<close>

fun addCertsOfDir :: "env \<Rightarrow> string \<Rightarrow> DirEntry list \<Rightarrow> CertPool \<Rightarrow> CertPool \<times> call list" where
  "addCertsOfDir w dir [] certPool = (certPool, [])"
| "addCertsOfDir w dir (fi # fis) certPool =
     (if IsDir fi then addCertsOfDir w dir fis certPool
      else let (certPool1, calls1) = addCertToPool w certPool (filepath_Join w dir (Name fi));
               (certPool2, calls2) = addCertsOfDir w dir fis certPool1
           in (certPool2, calls1 @ calls2))"

text \<open>
  \<^verbatim>\<open>buildHTTPSTransport\<close>, in two parts. The first part is the assembly of the
  certificate pool, up to the \<^verbatim>\<open>tls.Config\<close> literal: it returns the pool and the
  value of the variable \<^verbatim>\<open>err\<close>, which is assigned by the call of
  \<^verbatim>\<open>x509.SystemCertPool\<close> only.
\<close>

definition buildCertPool :: "env \<Rightarrow> httpClientCfg \<Rightarrow> (CertPool \<times> error option) \<times> call list" where
  "buildCertPool w hcc =
     (let (certPool, err) = (case x509_SystemCertPool w of
                               Inr pool \<Rightarrow> (pool, None)
                             | Inl e \<Rightarrow> (x509_NewCertPool, Some e));
          (certPool, calls1) = (if caFile hcc \<noteq> [] then addCertToPool w certPool (caFile hcc)
                                else (certPool, []));
          (certPool, calls2) = (if caPath hcc \<noteq> []
                                then let (fis, _) = os_ReadDir w (caPath hcc);
                                         (pool, calls) = addCertsOfDir w (caPath hcc) fis certPool
                                     in (pool, ReadDir (caPath hcc) # calls)
                                else (certPool, []))
      in ((certPool, err), SystemCertPool # calls1 @ calls2))"

definition buildHTTPSTransport ::
  "env \<Rightarrow> httpClientCfg \<Rightarrow> string \<Rightarrow> ('ctx http_Transport option \<times> string \<times> error option) \<times> call list" where
  "buildHTTPSTransport w hcc gitlabURL =
     (let ((certPool, err), calls) = buildCertPool w hcc;
          tlsConfig = \<lparr>RootCAs = certPool, MinVersion = tls_VersionTLS12, Certificates = []\<rparr>
      in if HaveCertAndKey hcc
         then (case tls_LoadX509KeyPair w (certPath hcc) (keyPath hcc) of
                 Inl loadErr \<Rightarrow> ((None, [], Some loadErr),
                                calls @ [LoadX509KeyPair (certPath hcc) (keyPath hcc)])
               | Inr cert \<Rightarrow>
                   ((Some \<lparr>DialContext = None,
                            TLSClientConfig = Some (tlsConfig\<lparr>Certificates := [cert]\<rparr>)\<rparr>,
                     gitlabURL, err),
                    calls @ [LoadX509KeyPair (certPath hcc) (keyPath hcc)]))
         else ((Some \<lparr>DialContext = None, TLSClientConfig = Some tlsConfig\<rparr>, gitlabURL, err),
               calls))"

definition buildHTTPTransport :: "string \<Rightarrow> 'ctx http_Transport option \<times> string" where
  "buildHTTPTransport gitlabURL = (Some \<lparr>DialContext = None, TLSClientConfig = None\<rparr>, gitlabURL)"

definition readTimeout :: "64 word \<Rightarrow> Duration" where
  "readTimeout timeoutSeconds =
     (let timeoutSeconds = (if timeoutSeconds = 0 then defaultReadTimeoutSeconds else timeoutSeconds)
      in timeoutSeconds * time_Second)"

text \<open>The statements of \<^verbatim>\<open>NewHTTPClientWithOpts\<close> after the \<^verbatim>\<open>switch\<close>.\<close>

definition assemble ::
  "httpClientCfg \<Rightarrow> 'ctx http_Transport option \<Rightarrow> string \<Rightarrow> 64 word \<Rightarrow> 'ctx HTTPClient_t" where
  "assemble hcc transport host readTimeoutSeconds =
     (let c = retryablehttp_NewClient ();
          c = c\<lparr>RetryMax := retryMax hcc\<rparr>;
          c = c\<lparr>RetryWaitMax := retryWaitMax hcc\<rparr>;
          c = c\<lparr>RetryWaitMin := retryWaitMin hcc\<rparr>;
          c = c\<lparr>Logger := None\<rparr>;
          c = c\<lparr>HTTPClient := (HTTPClient c)\<lparr>Transport := NewTransport transport\<rparr>\<rparr>;
          c = c\<lparr>HTTPClient := (HTTPClient c)\<lparr>Timeout := readTimeout readTimeoutSeconds\<rparr>\<rparr>
      in \<lparr>RetryableHTTP = c, Host = host\<rparr>)"

definition NewHTTPClientWithOpts ::
  "env \<Rightarrow> string \<Rightarrow> string \<Rightarrow> string \<Rightarrow> string \<Rightarrow> 64 word \<Rightarrow> HTTPClientOpt list
     \<Rightarrow> ('ctx HTTPClient_t option \<times> error option) \<times> call list" where
  "NewHTTPClientWithOpts w gitlabURL gitlabRelativeURLRoot caFile' caPath' readTimeoutSeconds opts =
     (let hcc = applyOpts opts (initialCfg caFile' caPath')
      in if HasPrefix gitlabURL unixSocketProtocol
         then (let (transport, host) = buildSocketTransport gitlabURL gitlabRelativeURLRoot
               in ((Some (assemble hcc transport host readTimeoutSeconds), None), []))
         else if HasPrefix gitlabURL httpProtocol
         then (let (transport, host) = buildHTTPTransport gitlabURL
               in ((Some (assemble hcc transport host readTimeoutSeconds), None), []))
         else if HasPrefix gitlabURL httpsProtocol
         then (case validateCaFile w caFile' of
                 (Some err, calls1) \<Rightarrow> ((None, Some err), calls1)
               | (None, calls1) \<Rightarrow>
                   (case buildHTTPSTransport w hcc gitlabURL of
                      ((transport, host, Some err), calls2) \<Rightarrow> ((None, Some err), calls1 @ calls2)
                    | ((transport, host, None), calls2) \<Rightarrow>
                        ((Some (assemble hcc transport host readTimeoutSeconds), None),
                         calls1 @ calls2)))
         else ((None, Some (ErrorString ''unknown GitLab URL prefix'')), []))"

subsection \<open>A concrete environment\<close>

text \<open>
  A machine with a system pool of one root, a CA bundle \<^verbatim>\<open>/etc/gitlab/ca.pem\<close>, a
  directory \<^verbatim>\<open>/etc/gitlab/certs\<close> holding a malformed file, a subdirectory and a
  valid certificate file, and a client key pair. The same machine without a system pool
  is \<open>machineNoSystemPool\<close>.
\<close>

definition machine :: env where
  "machine =
     \<lparr>os_Stat = (\<lambda>p. if p = ''/etc/gitlab/ca.pem'' then None else Some (PathError ''stat'' p ENOENT)),
      os_ReadFile = (\<lambda>p. if p = ''/etc/gitlab/ca.pem'' then Inr ''PEM bundle''
                         else if p = ''/etc/gitlab/certs/valid.pem'' then Inr ''PEM valid''
                         else if p = ''/etc/gitlab/certs/broken.pem'' then Inr ''not a certificate''
                         else Inl (PathError ''open'' p ENOENT)),
      os_ReadDir = (\<lambda>p. if p = ''/etc/gitlab/certs''
                        then ([\<lparr>Name = ''broken.pem'', IsDir = False\<rparr>,
                               \<lparr>Name = ''old'', IsDir = True\<rparr>,
                               \<lparr>Name = ''valid.pem'', IsDir = False\<rparr>], None)
                        else ([], Some (PathError ''open'' p ENOENT))),
      x509_SystemCertPool = Inr [''system root''],
      pem_certificates = (\<lambda>b. if b = ''PEM bundle'' then [''bundle CA'']
                              else if b = ''PEM valid'' then [''directory CA'']
                              else []),
      tls_LoadX509KeyPair = (\<lambda>c k. if c = ''/etc/gitlab/client.crt'' \<and> k = ''/etc/gitlab/client.key''
                                  then Inr \<lparr>Certificate = [''client certificate''], PrivateKey = ''client key''\<rparr>
                                  else Inl (ErrorString ''tls: failed to find any PEM data in certificate input'')),
      filepath_Join = (\<lambda>dir name. dir @ ''/'' @ name),
      filepath_Clean = (\<lambda>p. p)\<rparr>"

definition machineNoSystemPool :: env where
  "machineNoSystemPool =
     machine\<lparr>x509_SystemCertPool := Inl (ErrorString ''crypto/x509: system root pool is not available'')\<rparr>"

section \<open>Properties of the embedding\<close>

subsection \<open>Prefixes\<close>

lemma HasPrefix_append: "HasPrefix s pre \<longleftrightarrow> (\<exists>r. s = pre @ r)"
  unfolding HasPrefix_def
  by (metis append_eq_conv_conj append_take_drop_id length_append le_add1)

lemma https_not_http: "HasPrefix u httpsProtocol \<Longrightarrow> \<not> HasPrefix u httpProtocol"
  by (auto simp: HasPrefix_append httpsProtocol_def httpProtocol_def)

lemma https_not_unix: "HasPrefix u httpsProtocol \<Longrightarrow> \<not> HasPrefix u unixSocketProtocol"
  by (auto simp: HasPrefix_append httpsProtocol_def unixSocketProtocol_def)

lemma unix_not_http: "HasPrefix u unixSocketProtocol \<Longrightarrow> \<not> HasPrefix u httpProtocol"
  by (auto simp: HasPrefix_append httpProtocol_def unixSocketProtocol_def)

lemma TrimPrefix_drop: "HasPrefix s pre \<Longrightarrow> TrimPrefix s pre = drop (length pre) s"
  by (simp add: TrimPrefix_def)

subsection \<open>The three branches of the constructor\<close>

lemma New_unix:
  assumes "HasPrefix gitlabURL unixSocketProtocol"
  shows "NewHTTPClientWithOpts w gitlabURL root caFile' caPath' t opts =
           ((Some (assemble (applyOpts opts (initialCfg caFile' caPath'))
                     (Some \<lparr>DialContext =
                              Some (\<lambda>ctx _ _. Dial ctx ''unix'' (TrimPrefix gitlabURL unixSocketProtocol)),
                            TLSClientConfig = None\<rparr>)
                     (if Trim root ''/'' \<noteq> [] then socketBaseURL @ ''/'' @ Trim root ''/''
                      else socketBaseURL) t), None), [])"
  using assms by (simp add: NewHTTPClientWithOpts_def buildSocketTransport_def Let_def)

lemma New_http:
  assumes "HasPrefix gitlabURL httpProtocol"
  shows "NewHTTPClientWithOpts w gitlabURL root caFile' caPath' t opts =
           ((Some (assemble (applyOpts opts (initialCfg caFile' caPath'))
                     (Some \<lparr>DialContext = None, TLSClientConfig = None\<rparr>) gitlabURL t), None), [])"
proof -
  have "\<not> HasPrefix gitlabURL unixSocketProtocol"
    using assms unix_not_http by blast
  then show ?thesis
    using assms by (simp add: NewHTTPClientWithOpts_def buildHTTPTransport_def Let_def)
qed

lemma New_https:
  assumes "HasPrefix gitlabURL httpsProtocol"
  shows "NewHTTPClientWithOpts w gitlabURL root caFile' caPath' t opts =
           (case validateCaFile w caFile' of
              (Some err, calls1) \<Rightarrow> ((None, Some err), calls1)
            | (None, calls1) \<Rightarrow>
                (case buildHTTPSTransport w (applyOpts opts (initialCfg caFile' caPath')) gitlabURL of
                   ((transport, host, Some err), calls2) \<Rightarrow> ((None, Some err), calls1 @ calls2)
                 | ((transport, host, None), calls2) \<Rightarrow>
                     ((Some (assemble (applyOpts opts (initialCfg caFile' caPath')) transport host t),
                       None), calls1 @ calls2)))"
  using assms https_not_http [OF assms] https_not_unix [OF assms]
  by (simp add: NewHTTPClientWithOpts_def Let_def)

lemma New_unknown:
  assumes "\<not> HasPrefix gitlabURL unixSocketProtocol" "\<not> HasPrefix gitlabURL httpProtocol"
    "\<not> HasPrefix gitlabURL httpsProtocol"
  shows "NewHTTPClientWithOpts w gitlabURL root caFile' caPath' t opts =
           ((None, Some (ErrorString ''unknown GitLab URL prefix'')), [])"
  using assms by (simp add: NewHTTPClientWithOpts_def Let_def)

lemma assemble_fields:
  "Host (assemble hcc transport h t) = h"
  "Timeout (HTTPClient (RetryableHTTP (assemble hcc transport h t))) = readTimeout t"
  "Transport (HTTPClient (RetryableHTTP (assemble hcc transport h t))) = NewTransport transport"
  "RetryMax (RetryableHTTP (assemble hcc transport h t)) = retryMax hcc"
  "RetryWaitMin (RetryableHTTP (assemble hcc transport h t)) = retryWaitMin hcc"
  "RetryWaitMax (RetryableHTTP (assemble hcc transport h t)) = retryWaitMax hcc"
  "Logger (RetryableHTTP (assemble hcc transport h t)) = None"
  by (simp_all add: assemble_def Let_def)

text \<open>A client is returned only as the result of \<open>assemble\<close>, on the final configuration.\<close>

lemma New_Some:
  assumes "NewHTTPClientWithOpts w gitlabURL root caFile' caPath' t opts = ((Some client, e), calls)"
  shows "\<exists>transport h. client = assemble (applyOpts opts (initialCfg caFile' caPath')) transport h t
           \<and> e = None
           \<and> (HasPrefix gitlabURL httpProtocol \<or> HasPrefix gitlabURL httpsProtocol \<longrightarrow> h = gitlabURL)"
proof (cases "HasPrefix gitlabURL unixSocketProtocol")
  case True
  then show ?thesis
    using assms unix_not_http [OF True] https_not_unix [of gitlabURL]
    by (auto simp: New_unix)
next
  case nu: False
  show ?thesis
  proof (cases "HasPrefix gitlabURL httpProtocol")
    case True
    then show ?thesis using assms by (auto simp: New_http)
  next
    case nh: False
    show ?thesis
    proof (cases "HasPrefix gitlabURL httpsProtocol")
      case True
      then show ?thesis
        using assms
        by (auto simp: New_https buildHTTPSTransport_def Let_def
            split: prod.splits option.splits sum.splits if_splits)
    next
      case False
      then show ?thesis using assms nu nh by (simp add: New_unknown)
    qed
  qed
qed

subsection \<open>Durations\<close>

lemma uint_seconds:
  assumes "uint (t :: 64 word) \<le> 9223372036"
  shows "uint (t * 1000000000) = uint t * 1000000000"
proof -
  have "0 \<le> uint t" by simp
  then have b: "uint t * 1000000000 < 2 ^ 64" using assms by simp
  have "uint (t * 1000000000) = (uint t * uint (1000000000 :: 64 word)) mod 2 ^ 64"
    by (simp add: uint_word_ariths)
  also have "\<dots> = uint t * 1000000000" using b by simp
  finally show ?thesis .
qed

lemma sint_seconds:
  assumes "uint (t :: 64 word) \<le> 9223372036"
  shows "sint (t * 1000000000) = uint t * 1000000000"
proof -
  have u: "uint (t * 1000000000) = uint t * 1000000000" using assms by (rule uint_seconds)
  have lt: "uint t * 1000000000 < 2 ^ 63" using assms by simp
  have "0 \<le> uint t * 1000000000" by simp
  moreover have "- (2 ^ 63) \<le> (0::int)" by simp
  ultimately have ge: "- (2 ^ 63) \<le> uint t * 1000000000" by (rule order_trans [rotated])
  have "sint (t * 1000000000) = signed_take_bit 63 (uint (t * 1000000000))"
    by (simp add: sint_uint)
  also have "\<dots> = uint t * 1000000000"
    unfolding u using ge lt by (rule signed_take_bit_int_eq_self)
  finally show ?thesis .
qed

section \<open>The claims\<close>

text \<open>
  C6, as amended. The overall timeout of every constructed client is
  \<open>readTimeout\<close> of the read-timeout value; it is 300 seconds when the value is 0, and
  that many seconds when the value is non-zero and at most 9223372036, the largest number
  of seconds whose nanoseconds fit an \<^verbatim>\<open>int64\<close>. In particular 10 yields 10 seconds.
\<close>

theorem readTimeout_seconds:
  "sint (readTimeout 0) = 300 * 1000000000
   \<and> sint (readTimeout 10) = 10 * 1000000000
   \<and> (t \<noteq> 0 \<and> uint t \<le> 9223372036 \<longrightarrow> sint (readTimeout t) = uint t * 1000000000)
   \<and> (NewHTTPClientWithOpts w gitlabURL root caFile' caPath' t opts = ((Some client, e), calls)
        \<longrightarrow> Timeout (HTTPClient (RetryableHTTP client)) = readTimeout t)"
proof (intro conjI impI)
  show "sint (readTimeout 0) = 300 * 1000000000"
    by (simp add: readTimeout_def defaultReadTimeoutSeconds_def time_Second_def)
  show "sint (readTimeout 10) = 10 * 1000000000"
    by (simp add: readTimeout_def time_Second_def)
  show "sint (readTimeout t) = uint t * 1000000000" if "t \<noteq> 0 \<and> uint t \<le> 9223372036"
    using that by (simp add: readTimeout_def time_Second_def sint_seconds)
  show "Timeout (HTTPClient (RetryableHTTP client)) = readTimeout t"
    if "NewHTTPClientWithOpts w gitlabURL root caFile' caPath' t opts = ((Some client, e), calls)"
    using New_Some [OF that] by (auto simp: assemble_fields)
qed

theorem readTimeout_seconds_witness:
  "sint (readTimeout 0) = 300 * 1000000000
   \<and> sint (readTimeout 10) = 10 * 1000000000
   \<and> (45 :: 64 word) \<noteq> 0 \<and> uint (45 :: 64 word) \<le> 9223372036
   \<and> sint (readTimeout 45) = 45 * 1000000000
   \<and> (\<exists>client. NewHTTPClientWithOpts machine ''http://localhost:8080'' [] [] [] 45 []
                  = ((Some client, None), [])
        \<and> sint (Timeout (HTTPClient (RetryableHTTP (client :: nat HTTPClient_t)))) = 45 * 1000000000)"
  using readTimeout_seconds [of 45 machine "''http://localhost:8080''" "[]" "[]" "[]" "[]"
      "assemble (initialCfg [] []) (Some \<lparr>DialContext = None, TLSClientConfig = None\<rparr>)
         ''http://localhost:8080'' 45 :: nat HTTPClient_t" None "[]"]
  by (simp add: NewHTTPClientWithOpts_def HasPrefix_def unixSocketProtocol_def httpProtocol_def
      buildHTTPTransport_def)

theorem readTimeout_overflow_counterexample:
  "readTimeout 36028797018963968 = 0
   \<and> sint (readTimeout 36028797018963968) \<noteq> uint (36028797018963968 :: 64 word) * 1000000000
   \<and> sint (Timeout (HTTPClient (RetryableHTTP (the (fst (fst
        (NewHTTPClientWithOpts machine ''http://localhost:8080'' [] [] [] 36028797018963968 []
           :: (nat HTTPClient_t option \<times> error option) \<times> call list)))))))
      \<noteq> 36028797018963968 * 1000000000"
  by (simp add: readTimeout_def time_Second_def NewHTTPClientWithOpts_def HasPrefix_def
      unixSocketProtocol_def httpProtocol_def buildHTTPTransport_def assemble_def Let_def)

text \<open>
  C5, as amended. A target URL that begins with none of \<^verbatim>\<open>http+unix://\<close>,
  \<^verbatim>\<open>http://\<close>, \<^verbatim>\<open>https://\<close> yields no client and an error whose message is
  "unknown GitLab URL prefix", without any call to the environment.
\<close>

theorem unknown_prefix_error:
  assumes "\<not> HasPrefix gitlabURL unixSocketProtocol"
    and "\<not> HasPrefix gitlabURL httpProtocol"
    and "\<not> HasPrefix gitlabURL httpsProtocol"
  shows "\<exists>e. NewHTTPClientWithOpts w gitlabURL root caFile' caPath' t opts = ((None, Some e), [])
           \<and> Error e = ''unknown GitLab URL prefix''"
  using assms by (simp add: New_unknown)

theorem unknown_prefix_error_witness:
  "\<not> HasPrefix ''ftp://host'' unixSocketProtocol
   \<and> \<not> HasPrefix ''ftp://host'' httpProtocol
   \<and> \<not> HasPrefix ''ftp://host'' httpsProtocol
   \<and> (\<exists>e. (NewHTTPClientWithOpts machine ''ftp://host'' [] [] [] 0 []
               :: (nat HTTPClient_t option \<times> error option) \<times> call list) = ((None, Some e), [])
          \<and> Error e = ''unknown GitLab URL prefix'')"
proof -
  have h: "\<not> HasPrefix ''ftp://host'' unixSocketProtocol" "\<not> HasPrefix ''ftp://host'' httpProtocol"
    "\<not> HasPrefix ''ftp://host'' httpsProtocol"
    by (simp_all add: HasPrefix_def unixSocketProtocol_def httpProtocol_def httpsProtocol_def)
  show ?thesis
    using h unknown_prefix_error [OF h, of machine "[]" "[]" "[]" 0 "[]"] by simp
qed

theorem unknown_prefix_message_counterexample:
  "map_option Error (snd (fst (NewHTTPClientWithOpts machine ''ftp://host'' [] [] [] 0 []
      :: (nat HTTPClient_t option \<times> error option) \<times> call list)))
   \<noteq> Some ''unknown target URL prefix''"
  by (simp add: NewHTTPClientWithOpts_def HasPrefix_def unixSocketProtocol_def httpProtocol_def
      httpsProtocol_def Let_def)

text \<open>
  C10. For a target URL that begins with \<^verbatim>\<open>http://\<close> or \<^verbatim>\<open>http+unix://\<close> the
  construction returns a client and no error, whatever the CA file, the CA directory, the
  options and the environment are, and it makes no call to the environment: neither the
  CA file is checked nor a key pair loaded.
\<close>

theorem non_tls_always_succeeds:
  assumes "HasPrefix gitlabURL httpProtocol \<or> HasPrefix gitlabURL unixSocketProtocol"
  shows "\<exists>client. NewHTTPClientWithOpts w gitlabURL root caFile' caPath' t opts
                     = ((Some client, None), [])"
  using assms by (auto simp: New_http New_unix)

theorem non_tls_always_succeeds_witness:
  "(HasPrefix ''http://localhost:8080'' httpProtocol
      \<or> HasPrefix ''http://localhost:8080'' unixSocketProtocol)
   \<and> (\<exists>client :: nat HTTPClient_t.
         NewHTTPClientWithOpts machine ''http://localhost:8080'' [] ''/no/such/ca.pem'' ''/no/such/dir'' 0
           [WithClientCert ''/no/such.crt'' ''/no/such.key''] = ((Some client, None), []))"
proof -
  have h: "HasPrefix ''http://localhost:8080'' httpProtocol
      \<or> HasPrefix ''http://localhost:8080'' unixSocketProtocol"
    by (simp add: HasPrefix_def httpProtocol_def)
  show ?thesis
    using h non_tls_always_succeeds [OF h, of machine "[]" "''/no/such/ca.pem''" "''/no/such/dir''" 0
        "[WithClientCert ''/no/such.crt'' ''/no/such.key'']"]
    by simp
qed

text \<open>
  C3. For a target URL that begins with \<^verbatim>\<open>http+unix://\<close> the transport of the client
  has a dialer which, whatever network and address it is given, dials the network
  \<^verbatim>\<open>unix\<close> at the URL without its prefix, with the context it is given.
\<close>

theorem socket_dialer_fixed_path:
  assumes "HasPrefix gitlabURL unixSocketProtocol"
  shows "\<exists>client tr d.
           NewHTTPClientWithOpts w gitlabURL root caFile' caPath' t opts = ((Some client, None), [])
           \<and> Transport (HTTPClient (RetryableHTTP client)) = NewTransport (Some tr)
           \<and> fst (buildSocketTransport gitlabURL root) = Some tr
           \<and> DialContext tr = Some d
           \<and> (\<forall>ctx network address.
                 d ctx network address = Dial ctx ''unix'' (drop (length unixSocketProtocol) gitlabURL))
           \<and> gitlabURL = unixSocketProtocol @ drop (length unixSocketProtocol) gitlabURL"
proof -
  have "gitlabURL = unixSocketProtocol @ drop (length unixSocketProtocol) gitlabURL"
    using assms by (auto simp: HasPrefix_append)
  then show ?thesis
    using assms
    by (simp add: New_unix assemble_fields buildSocketTransport_def Let_def TrimPrefix_drop)
qed

theorem socket_dialer_fixed_path_witness:
  "HasPrefix ''http+unix:///var/run/gitlab.sock'' unixSocketProtocol
   \<and> (\<exists>(client :: nat HTTPClient_t) tr d.
         NewHTTPClientWithOpts machine ''http+unix:///var/run/gitlab.sock'' [] [] [] 0 []
           = ((Some client, None), [])
         \<and> Transport (HTTPClient (RetryableHTTP client)) = NewTransport (Some tr)
         \<and> DialContext tr = Some d
         \<and> (\<forall>ctx network address. d ctx network address = Dial ctx ''unix'' ''/var/run/gitlab.sock''))"
proof -
  have h: "HasPrefix ''http+unix:///var/run/gitlab.sock'' unixSocketProtocol"
    by (simp add: HasPrefix_def unixSocketProtocol_def)
  have "drop (length unixSocketProtocol) ''http+unix:///var/run/gitlab.sock'' = ''/var/run/gitlab.sock''"
    by (simp add: unixSocketProtocol_def)
  then show ?thesis
    using h socket_dialer_fixed_path [OF h, of machine "[]" "[]" "[]" 0 "[]", where ?'a = nat]
    by auto
qed

subsection \<open>Trimming\<close>

lemma rev_dropWhile_takeWhile:
  "rev (dropWhile P (rev x)) @ rev (takeWhile P (rev x)) = x"
proof -
  have "rev (takeWhile P (rev x) @ dropWhile P (rev x)) = rev (rev x)"
    by (simp only: takeWhile_dropWhile_id)
  then show ?thesis by (simp only: rev_append rev_rev_ident)
qed

lemma Trim_decompose:
  "\<exists>a b. s = a @ Trim s cutset @ b \<and> set a \<subseteq> set cutset \<and> set b \<subseteq> set cutset"
proof -
  let ?P = "\<lambda>c. c \<in> set cutset"
  let ?l = "dropWhile ?P s"
  have 1: "s = takeWhile ?P s @ ?l" by simp
  have 2: "?l = rev (dropWhile ?P (rev ?l)) @ rev (takeWhile ?P (rev ?l))"
    by (simp only: rev_dropWhile_takeWhile)
  have 3: "Trim s cutset = rev (dropWhile ?P (rev ?l))"
    by (simp add: Trim_def TrimLeft_def TrimRight_def)
  have "s = takeWhile ?P s @ Trim s cutset @ rev (takeWhile ?P (rev ?l))"
    using 1 2 3 by metis
  moreover have "set (takeWhile ?P s) \<subseteq> set cutset"
    by (auto dest: set_takeWhileD)
  moreover have "set (rev (takeWhile ?P (rev ?l))) \<subseteq> set cutset"
    by (auto dest: set_takeWhileD)
  ultimately show ?thesis by blast
qed

lemma Trim_ends:
  assumes "Trim s cutset \<noteq> []"
  shows "hd (Trim s cutset) \<notin> set cutset \<and> last (Trim s cutset) \<notin> set cutset"
proof -
  let ?P = "\<lambda>c. c \<in> set cutset"
  let ?l = "dropWhile ?P s"
  let ?r = "dropWhile ?P (rev ?l)"
  have t: "Trim s cutset = rev ?r"
    by (simp add: Trim_def TrimLeft_def TrimRight_def)
  then have ne: "?r \<noteq> []" using assms by simp
  then have h: "\<not> ?P (hd ?r)" by (rule hd_dropWhile)
  have lastr: "last (Trim s cutset) \<notin> set cutset"
    using h ne by (simp add: t last_rev)
  have lne: "?l \<noteq> []"
  proof
    assume e: "?l = []"
    show False using ne unfolding e by simp
  qed
  then have hl: "\<not> ?P (hd ?l)" by (rule hd_dropWhile)
  have "?l = rev ?r @ rev (takeWhile ?P (rev ?l))"
    by (simp only: rev_dropWhile_takeWhile)
  then have "hd ?l = hd (rev ?r)" using ne by (metis hd_append2 rev_is_Nil_conv)
  then have "hd (Trim s cutset) \<notin> set cutset" using hl t by simp
  then show ?thesis using lastr by simp
qed

text \<open>
  C4. For a target URL that begins with \<^verbatim>\<open>http+unix://\<close> a client is returned, and
  its host is \<^verbatim>\<open>http://unix\<close> when the relative root without its leading and
  trailing slashes is empty, and \<^verbatim>\<open>http://unix/\<close> followed by the trimmed relative
  root otherwise. For a target URL that begins with \<^verbatim>\<open>http://\<close> or
  \<^verbatim>\<open>https://\<close> the host of every client returned is the target URL. The trimmed
  relative root is the relative root without a run of slashes at its start and at its
  end, and neither starts nor ends with a slash.
\<close>

theorem effective_host:
  "(HasPrefix gitlabURL unixSocketProtocol \<longrightarrow>
      (\<exists>client :: 'ctx HTTPClient_t.
         NewHTTPClientWithOpts w gitlabURL root caFile' caPath' t opts = ((Some client, None), [])
         \<and> Host client = (if Trim root ''/'' = [] then ''http://unix''
                           else ''http://unix/'' @ Trim root ''/'')))
   \<and> (HasPrefix gitlabURL httpProtocol \<or> HasPrefix gitlabURL httpsProtocol \<longrightarrow>
        (\<forall>(client :: 'ctx HTTPClient_t) e calls.
            NewHTTPClientWithOpts w gitlabURL root caFile' caPath' t opts = ((Some client, e), calls)
            \<longrightarrow> Host client = gitlabURL))
   \<and> (\<exists>a b. root = a @ Trim root ''/'' @ b \<and> set a \<subseteq> {CHR ''/''} \<and> set b \<subseteq> {CHR ''/''})
   \<and> (Trim root ''/'' \<noteq> [] \<longrightarrow>
        hd (Trim root ''/'') \<noteq> CHR ''/'' \<and> last (Trim root ''/'') \<noteq> CHR ''/'')"
proof -
  have 1: "\<exists>client :: 'ctx HTTPClient_t. NewHTTPClientWithOpts w gitlabURL root caFile' caPath' t opts
                 = ((Some client, None), [])
         \<and> Host client = (if Trim root ''/'' = [] then ''http://unix''
                           else ''http://unix/'' @ Trim root ''/'')"
    if "HasPrefix gitlabURL unixSocketProtocol"
    using that by (simp add: New_unix assemble_fields socketBaseURL_def)
  have 2: "Host client = gitlabURL"
    if "HasPrefix gitlabURL httpProtocol \<or> HasPrefix gitlabURL httpsProtocol"
      and "NewHTTPClientWithOpts w gitlabURL root caFile' caPath' t opts = ((Some client, e), calls)"
    for client :: "'ctx HTTPClient_t" and e calls
    using New_Some [OF that(2)] that(1) by (auto simp: assemble_fields)
  have 3: "\<exists>a b. root = a @ Trim root ''/'' @ b \<and> set a \<subseteq> {CHR ''/''} \<and> set b \<subseteq> {CHR ''/''}"
    using Trim_decompose [of root "''/''"] by simp
  have 4: "hd (Trim root ''/'') \<noteq> CHR ''/'' \<and> last (Trim root ''/'') \<noteq> CHR ''/''"
    if "Trim root ''/'' \<noteq> []"
    using Trim_ends [OF that] by simp
  show ?thesis
    using 1 2 3 4 by blast
qed

theorem effective_host_witness:
  "HasPrefix ''http+unix:///var/run/gitlab.sock'' unixSocketProtocol
   \<and> Trim ''/gitlab/'' ''/'' = ''gitlab''
   \<and> (\<exists>client :: nat HTTPClient_t.
         NewHTTPClientWithOpts machine ''http+unix:///var/run/gitlab.sock'' ''/gitlab/'' [] [] 0 []
           = ((Some client, None), [])
         \<and> Host client = ''http://unix/gitlab'')
   \<and> (HasPrefix ''http://localhost:8080'' httpProtocol
        \<or> HasPrefix ''http://localhost:8080'' httpsProtocol)
   \<and> (\<exists>client :: nat HTTPClient_t.
         NewHTTPClientWithOpts machine ''http://localhost:8080'' ''/gitlab/'' [] [] 0 []
           = ((Some client, None), [])
         \<and> Host client = ''http://localhost:8080'')"
proof -
  have h: "HasPrefix ''http+unix:///var/run/gitlab.sock'' unixSocketProtocol"
    by (simp add: HasPrefix_def unixSocketProtocol_def)
  have t: "Trim ''/gitlab/'' ''/'' = ''gitlab''"
    by (simp add: Trim_def TrimLeft_def TrimRight_def)
  have u: "\<exists>client :: nat HTTPClient_t.
         NewHTTPClientWithOpts machine ''http+unix:///var/run/gitlab.sock'' ''/gitlab/'' [] [] 0 []
           = ((Some client, None), [])
         \<and> Host client = ''http://unix/gitlab''"
    using h t effective_host [of "''http+unix:///var/run/gitlab.sock''" machine "''/gitlab/''"
        "[]" "[]" 0 "[]", where ?'ctx = nat]
    by simp
  have p: "HasPrefix ''http://localhost:8080'' httpProtocol"
    by (simp add: HasPrefix_def httpProtocol_def)
  let ?client = "assemble (applyOpts [] (initialCfg [] []))
                   (Some \<lparr>DialContext = None, TLSClientConfig = None\<rparr>)
                   ''http://localhost:8080'' 0 :: nat HTTPClient_t"
  have n: "NewHTTPClientWithOpts machine ''http://localhost:8080'' ''/gitlab/'' [] [] 0 []
             = ((Some ?client, None), [])"
    by (rule New_http [OF p])
  have "Host ?client = ''http://localhost:8080''"
    using p n effective_host [of "''http://localhost:8080''" machine "''/gitlab/''"
        "[]" "[]" 0 "[]", where ?'ctx = nat]
    by blast
  then show ?thesis using h t u p n by blast
qed

text \<open>
  C1. For a target URL that begins with \<^verbatim>\<open>https://\<close> and a non-empty CA file path
  that \<^verbatim>\<open>os.Stat\<close> reports as not existing, no client is returned; the error wraps
  \<^verbatim>\<open>ErrCafileNotFound\<close>, is matched by \<^verbatim>\<open>errors.Is\<close> against it, and its message
  carries the path. The only call to the environment is that \<^verbatim>\<open>os.Stat\<close>: the
  system pool is not read, no file is read and no key pair is loaded.
\<close>

theorem missing_cafile_error:
  assumes "HasPrefix gitlabURL httpsProtocol"
    and "caFile' \<noteq> []"
    and "os_Stat w caFile' = Some err"
    and "os_IsNotExist err"
  shows "\<exists>e. NewHTTPClientWithOpts w gitlabURL root caFile' caPath' t opts
               = ((None, Some e), [Stat caFile'])
           \<and> e = WrapError (''cannot find cafile '' @ [CHR 0x27] @ caFile' @ [CHR 0x27]
                              @ '': cafile not found'') ErrCafileNotFound
           \<and> errors_Is e ErrCafileNotFound
           \<and> Error e = ''cannot find cafile '' @ [CHR 0x27] @ caFile' @ [CHR 0x27]
                          @ '': cafile not found''"
proof -
  have "validateCaFile w caFile' = (Some (fmt_cafile caFile' ErrCafileNotFound), [Stat caFile'])"
    using assms by (simp add: validateCaFile_def)
  then show ?thesis
    using assms(1) by (simp add: New_https fmt_cafile_def ErrCafileNotFound_def)
qed

theorem missing_cafile_error_witness:
  "HasPrefix ''https://gitlab.example.com'' httpsProtocol
   \<and> ''/etc/gitlab/missing.pem'' \<noteq> []
   \<and> os_Stat machine ''/etc/gitlab/missing.pem''
       = Some (PathError ''stat'' ''/etc/gitlab/missing.pem'' ENOENT)
   \<and> os_IsNotExist (PathError ''stat'' ''/etc/gitlab/missing.pem'' ENOENT)
   \<and> (\<exists>e. (NewHTTPClientWithOpts machine ''https://gitlab.example.com'' [] ''/etc/gitlab/missing.pem''
               ''/etc/gitlab/certs'' 0 [] :: (nat HTTPClient_t option \<times> error option) \<times> call list)
              = ((None, Some e), [Stat ''/etc/gitlab/missing.pem''])
          \<and> errors_Is e ErrCafileNotFound
          \<and> Error e = ''cannot find cafile '' @ [CHR 0x27] @ ''/etc/gitlab/missing.pem'' @ [CHR 0x27]
                         @ '': cafile not found'')"
proof -
  have h1: "HasPrefix ''https://gitlab.example.com'' httpsProtocol"
    by (simp add: HasPrefix_def httpsProtocol_def)
  have h2: "''/etc/gitlab/missing.pem'' \<noteq> []" by simp
  have h3: "os_Stat machine ''/etc/gitlab/missing.pem''
       = Some (PathError ''stat'' ''/etc/gitlab/missing.pem'' ENOENT)"
    by (simp add: machine_def)
  have h4: "os_IsNotExist (PathError ''stat'' ''/etc/gitlab/missing.pem'' ENOENT)" by simp
  show ?thesis
    using h1 h3 h4 missing_cafile_error [OF h1 h2 h3 h4, of "[]" "''/etc/gitlab/certs''" 0 "[]",
        where ?'a = nat]
    by auto
qed

subsection \<open>The certificate pool and the TLS transport\<close>

lemma AddCert_idem: "AddCert (AddCert pool c) c = AddCert pool c"
  by (simp add: AddCert_def)

lemma set_AddCert: "set (AddCert pool c) = insert c (set pool)"
  by (auto simp: AddCert_def)

lemma addCertToPool_calls:
  "snd (addCertToPool w pool f) = [ReadFile (filepath_Clean w f)]"
  by (simp add: addCertToPool_def Let_def split: sum.splits)

lemma addCertToPool_skip:
  assumes "\<forall>b. os_ReadFile w (filepath_Clean w f) = Inr b \<longrightarrow> pem_certificates w b = []"
  shows "fst (addCertToPool w pool f) = pool"
  using assms by (simp add: addCertToPool_def AppendCertsFromPEM_def Let_def split: sum.splits)

lemma addCertToPool_one:
  assumes "os_ReadFile w (filepath_Clean w f) = Inr pem" and "pem_certificates w pem = [c]"
  shows "fst (addCertToPool w pool f) = AddCert pool c"
  using assms by (simp add: addCertToPool_def AppendCertsFromPEM_def Let_def)

lemma addCertsOfDir_calls:
  "\<forall>x \<in> set (snd (addCertsOfDir w dir fis pool)). \<exists>p. x = ReadFile p"
proof (induction fis arbitrary: pool)
  case Nil
  show ?case by simp
next
  case (Cons fi fis)
  show ?case
  proof (cases "IsDir fi")
    case True
    then show ?thesis using Cons.IH [of pool] by simp
  next
    case False
    obtain p1 c1 where a: "addCertToPool w pool (filepath_Join w dir (Name fi)) = (p1, c1)"
      by (cases "addCertToPool w pool (filepath_Join w dir (Name fi))")
    obtain p2 c2 where b: "addCertsOfDir w dir fis p1 = (p2, c2)"
      by (cases "addCertsOfDir w dir fis p1")
    have "c1 = [ReadFile (filepath_Clean w (filepath_Join w dir (Name fi)))]"
      using a addCertToPool_calls [of w pool "filepath_Join w dir (Name fi)"] by simp
    moreover have "\<forall>x \<in> set c2. \<exists>p. x = ReadFile p"
      using Cons.IH [of p1] b by simp
    ultimately show ?thesis using False a b by auto
  qed
qed

text \<open>
  A directory in which every entry is a subdirectory, a file that cannot be read or holds
  no certificate, or a file that holds exactly the certificate \<open>c\<close>.
\<close>

lemma addCertsOfDir_pool:
  assumes "\<forall>fi \<in> set fis.
             IsDir fi
             \<or> (\<forall>b. os_ReadFile w (filepath_Clean w (filepath_Join w dir (Name fi))) = Inr b
                     \<longrightarrow> pem_certificates w b = [])
             \<or> (\<exists>pem. os_ReadFile w (filepath_Clean w (filepath_Join w dir (Name fi))) = Inr pem
                     \<and> pem_certificates w pem = [c])"
  shows "fst (addCertsOfDir w dir fis pool) =
           (if \<exists>fi \<in> set fis. \<not> IsDir fi
                 \<and> (\<exists>pem. os_ReadFile w (filepath_Clean w (filepath_Join w dir (Name fi))) = Inr pem
                        \<and> pem_certificates w pem = [c])
            then AddCert pool c else pool)"
  using assms
proof (induction fis arbitrary: pool)
  case Nil
  show ?case by simp
next
  case (Cons fi fis)
  let ?f = "filepath_Join w dir (Name fi)"
  let ?one = "\<lambda>fi. \<exists>pem. os_ReadFile w (filepath_Clean w (filepath_Join w dir (Name fi))) = Inr pem
                        \<and> pem_certificates w pem = [c]"
  have rest: "\<forall>fi \<in> set fis.
             IsDir fi
             \<or> (\<forall>b. os_ReadFile w (filepath_Clean w (filepath_Join w dir (Name fi))) = Inr b
                     \<longrightarrow> pem_certificates w b = [])
             \<or> ?one fi"
    using Cons.prems by simp
  note IH = Cons.IH [OF rest]
  show ?case
  proof (cases "IsDir fi")
    case True
    then show ?thesis using IH [of pool] by simp
  next
    case nd: False
    obtain p1 c1 where a: "addCertToPool w pool ?f = (p1, c1)"
      by (cases "addCertToPool w pool ?f")
    have step: "fst (addCertsOfDir w dir (fi # fis) pool) = fst (addCertsOfDir w dir fis p1)"
      using nd a by (simp add: case_prod_beta)
    have r: "fst (addCertsOfDir w dir (fi # fis) pool) =
               (if \<exists>fi \<in> set fis. \<not> IsDir fi \<and> ?one fi then AddCert p1 c else p1)"
      using step IH [of p1] by (simp only:)
    show ?thesis
    proof (cases "?one fi")
      case True
      then obtain pem where "os_ReadFile w (filepath_Clean w ?f) = Inr pem"
        "pem_certificates w pem = [c]" by blast
      then have p1: "p1 = AddCert pool c"
        using addCertToPool_one [of w ?f pem c pool] a by simp
      have "\<exists>x \<in> set (fi # fis). \<not> IsDir x \<and> ?one x"
        using True nd by simp
      then show ?thesis
        unfolding r p1 by (simp add: AddCert_idem)
    next
      case False
      then have "\<forall>b. os_ReadFile w (filepath_Clean w ?f) = Inr b \<longrightarrow> pem_certificates w b = []"
        using Cons.prems nd by auto
      then have p1: "p1 = pool"
        using addCertToPool_skip [of w ?f pool] a by simp
      have "(\<exists>x \<in> set (fi # fis). \<not> IsDir x \<and> ?one x) = (\<exists>x \<in> set fis. \<not> IsDir x \<and> ?one x)"
        using False by auto
      then show ?thesis
        unfolding r p1 by (simp only:)
    qed
  qed
qed

lemma buildCertPool_err:
  "snd (fst (buildCertPool w hcc)) = (case x509_SystemCertPool w of Inl e \<Rightarrow> Some e | Inr pool \<Rightarrow> None)"
  by (simp add: buildCertPool_def Let_def case_prod_beta split: sum.splits)

lemma buildCertPool_no_load:
  "LoadX509KeyPair c k \<notin> set (snd (buildCertPool w hcc))"
proof -
  have 1: "LoadX509KeyPair c k \<notin> set (snd (addCertToPool w pool f))" for pool f
    by (simp add: addCertToPool_calls)
  have 2: "LoadX509KeyPair c k \<notin> set (snd (addCertsOfDir w dir fis pool))" for dir fis pool
    using addCertsOfDir_calls [of w dir fis pool] by auto
  show ?thesis
    using 1 2 by (simp add: buildCertPool_def Let_def case_prod_beta)
qed

lemma buildCertPool_pool:
  "fst (fst (buildCertPool w hcc)) =
     (let pool0 = (case x509_SystemCertPool w of Inl e \<Rightarrow> x509_NewCertPool | Inr pool \<Rightarrow> pool);
          pool1 = (if caFile hcc \<noteq> [] then fst (addCertToPool w pool0 (caFile hcc)) else pool0)
      in if caPath hcc \<noteq> []
         then fst (addCertsOfDir w (caPath hcc) (fst (os_ReadDir w (caPath hcc))) pool1)
         else pool1)"
  by (simp add: buildCertPool_def Let_def case_prod_beta split: sum.splits)

lemma buildHTTPSTransport_plain:
  assumes "\<not> HaveCertAndKey hcc"
  shows "buildHTTPSTransport w hcc gitlabURL =
           ((Some \<lparr>DialContext = None,
                   TLSClientConfig = Some \<lparr>RootCAs = fst (fst (buildCertPool w hcc)),
                                           MinVersion = tls_VersionTLS12,
                                           Certificates = []\<rparr>\<rparr>,
             gitlabURL, snd (fst (buildCertPool w hcc))),
            snd (buildCertPool w hcc))"
  using assms by (simp add: buildHTTPSTransport_def Let_def case_prod_beta)

lemma buildHTTPSTransport_cert:
  assumes "HaveCertAndKey hcc" and "tls_LoadX509KeyPair w (certPath hcc) (keyPath hcc) = Inr cert"
  shows "buildHTTPSTransport w hcc gitlabURL =
           ((Some \<lparr>DialContext = None,
                   TLSClientConfig = Some \<lparr>RootCAs = fst (fst (buildCertPool w hcc)),
                                           MinVersion = tls_VersionTLS12,
                                           Certificates = [cert]\<rparr>\<rparr>,
             gitlabURL, snd (fst (buildCertPool w hcc))),
            snd (buildCertPool w hcc) @ [LoadX509KeyPair (certPath hcc) (keyPath hcc)])"
  using assms by (simp add: buildHTTPSTransport_def Let_def case_prod_beta)

lemma buildHTTPSTransport_load_error:
  assumes "HaveCertAndKey hcc" and "tls_LoadX509KeyPair w (certPath hcc) (keyPath hcc) = Inl loadErr"
  shows "buildHTTPSTransport w hcc gitlabURL =
           ((None, [], Some loadErr),
            snd (buildCertPool w hcc) @ [LoadX509KeyPair (certPath hcc) (keyPath hcc)])"
  using assms by (simp add: buildHTTPSTransport_def Let_def case_prod_beta)

text \<open>
  The constructor on the TLS branch, when the CA file passes the check and the system
  pool is available.
\<close>

lemma New_https_plain:
  assumes "HasPrefix gitlabURL httpsProtocol"
    and "fst (validateCaFile w caFile') = None"
    and "x509_SystemCertPool w = Inr sysPool"
    and "\<not> HaveCertAndKey (applyOpts opts (initialCfg caFile' caPath'))"
  shows "NewHTTPClientWithOpts w gitlabURL root caFile' caPath' t opts =
           ((Some (assemble (applyOpts opts (initialCfg caFile' caPath'))
                     (Some \<lparr>DialContext = None,
                             TLSClientConfig = Some
                               \<lparr>RootCAs = fst (fst (buildCertPool w (applyOpts opts (initialCfg caFile' caPath')))),
                                MinVersion = tls_VersionTLS12,
                                Certificates = []\<rparr>\<rparr>)
                     gitlabURL t), None),
            snd (validateCaFile w caFile')
              @ snd (buildCertPool w (applyOpts opts (initialCfg caFile' caPath'))))"
proof -
  obtain calls1 where v: "validateCaFile w caFile' = (None, calls1)"
    using assms(2) by (cases "validateCaFile w caFile'") simp
  have e: "snd (fst (buildCertPool w (applyOpts opts (initialCfg caFile' caPath')))) = None"
    using assms(3) by (simp add: buildCertPool_err)
  show ?thesis
    unfolding New_https [OF assms(1)] v buildHTTPSTransport_plain [OF assms(4)] e
    by simp
qed

lemma New_https_cert:
  assumes "HasPrefix gitlabURL httpsProtocol"
    and "fst (validateCaFile w caFile') = None"
    and "x509_SystemCertPool w = Inr sysPool"
    and "HaveCertAndKey (applyOpts opts (initialCfg caFile' caPath'))"
    and "tls_LoadX509KeyPair w (certPath (applyOpts opts (initialCfg caFile' caPath')))
           (keyPath (applyOpts opts (initialCfg caFile' caPath'))) = Inr cert"
  shows "NewHTTPClientWithOpts w gitlabURL root caFile' caPath' t opts =
           ((Some (assemble (applyOpts opts (initialCfg caFile' caPath'))
                     (Some \<lparr>DialContext = None,
                             TLSClientConfig = Some
                               \<lparr>RootCAs = fst (fst (buildCertPool w (applyOpts opts (initialCfg caFile' caPath')))),
                                MinVersion = tls_VersionTLS12,
                                Certificates = [cert]\<rparr>\<rparr>)
                     gitlabURL t), None),
            snd (validateCaFile w caFile')
              @ snd (buildCertPool w (applyOpts opts (initialCfg caFile' caPath')))
              @ [LoadX509KeyPair (certPath (applyOpts opts (initialCfg caFile' caPath')))
                   (keyPath (applyOpts opts (initialCfg caFile' caPath')))])"
proof -
  obtain calls1 where v: "validateCaFile w caFile' = (None, calls1)"
    using assms(2) by (cases "validateCaFile w caFile'") simp
  have e: "snd (fst (buildCertPool w (applyOpts opts (initialCfg caFile' caPath')))) = None"
    using assms(3) by (simp add: buildCertPool_err)
  show ?thesis
    unfolding New_https [OF assms(1)] v buildHTTPSTransport_cert [OF assms(4) assms(5)] e
    by simp
qed

lemma validateCaFile_calls:
  "set (snd (validateCaFile w f)) \<subseteq> {Stat f}"
  by (simp add: validateCaFile_def split: option.splits)

text \<open>
  C2. When the system pool is unavailable, \<^verbatim>\<open>buildHTTPSTransport\<close> does fall back to
  an empty pool and builds the transport, but it returns the error of
  \<^verbatim>\<open>x509.SystemCertPool\<close> with it, and \<^verbatim>\<open>NewHTTPClientWithOpts\<close> then returns
  that error and no client. Evaluated on the machine without a system pool, with no CA
  file, no CA directory and no options.
\<close>

theorem system_pool_error_is_returned:
  "(buildHTTPSTransport machineNoSystemPool (initialCfg [] []) ''https://gitlab.example.com''
      :: (nat http_Transport option \<times> string \<times> error option) \<times> call list)
     = ((Some \<lparr>DialContext = None,
               TLSClientConfig = Some \<lparr>RootCAs = [], MinVersion = tls_VersionTLS12,
                                       Certificates = []\<rparr>\<rparr>,
         ''https://gitlab.example.com'',
         Some (ErrorString ''crypto/x509: system root pool is not available'')),
        [SystemCertPool])
   \<and> (NewHTTPClientWithOpts machineNoSystemPool ''https://gitlab.example.com'' [] [] [] 0 []
         :: (nat HTTPClient_t option \<times> error option) \<times> call list)
       = ((None, Some (ErrorString ''crypto/x509: system root pool is not available'')),
          [SystemCertPool])"
proof -
  have h: "HasPrefix ''https://gitlab.example.com'' httpsProtocol"
    by (simp add: HasPrefix_def httpsProtocol_def)
  have p: "buildCertPool machineNoSystemPool (initialCfg [] [])
             = (([], Some (ErrorString ''crypto/x509: system root pool is not available'')),
                [SystemCertPool])"
    by (simp add: buildCertPool_def machineNoSystemPool_def initialCfg_def x509_NewCertPool_def)
  have b: "(buildHTTPSTransport machineNoSystemPool (initialCfg [] []) ''https://gitlab.example.com''
      :: (nat http_Transport option \<times> string \<times> error option) \<times> call list)
     = ((Some \<lparr>DialContext = None,
               TLSClientConfig = Some \<lparr>RootCAs = [], MinVersion = tls_VersionTLS12,
                                       Certificates = []\<rparr>\<rparr>,
         ''https://gitlab.example.com'',
         Some (ErrorString ''crypto/x509: system root pool is not available'')),
        [SystemCertPool])"
    unfolding buildHTTPSTransport_def p by (simp add: HaveCertAndKey_def initialCfg_def)
  have a: "applyOpts [] (initialCfg [] []) = initialCfg [] []" by simp
  have v: "validateCaFile machineNoSystemPool [] = (None, [])"
    by (simp add: validateCaFile_def)
  have "(NewHTTPClientWithOpts machineNoSystemPool ''https://gitlab.example.com'' [] [] [] 0 []
         :: (nat HTTPClient_t option \<times> error option) \<times> call list)
       = ((None, Some (ErrorString ''crypto/x509: system root pool is not available'')),
          [SystemCertPool])"
    unfolding New_https [OF h] v a b by simp
  then show ?thesis using b by simp
qed

text \<open>
  C8. For a target URL that begins with \<^verbatim>\<open>https://\<close>, with a CA file that passes the
  check and an available system pool: when the key path and the certificate path of the
  configuration are both non-empty and the pair loads, the construction succeeds, the key
  pair is loaded and the certificate list of the TLS configuration is that one pair; when
  at least one of the two paths is empty, the construction succeeds all the same, no key
  pair is loaded and the certificate list is empty. The two paths of the configuration are
  those of the last \<^verbatim>\<open>WithClientCert\<close> option.
\<close>

theorem client_certificate_attached:
  assumes "HasPrefix gitlabURL httpsProtocol"
    and "fst (validateCaFile w caFile') = None"
    and "x509_SystemCertPool w = Inr sysPool"
    and "hcc = applyOpts opts (initialCfg caFile' caPath')"
  shows "(keyPath hcc \<noteq> [] \<and> certPath hcc \<noteq> []
            \<and> tls_LoadX509KeyPair w (certPath hcc) (keyPath hcc) = Inr cert \<longrightarrow>
          (\<exists>(client :: 'ctx HTTPClient_t) tr cfg calls.
              NewHTTPClientWithOpts w gitlabURL root caFile' caPath' t opts = ((Some client, None), calls)
              \<and> Transport (HTTPClient (RetryableHTTP client)) = NewTransport (Some tr)
              \<and> TLSClientConfig tr = Some cfg
              \<and> Certificates cfg = [cert]
              \<and> LoadX509KeyPair (certPath hcc) (keyPath hcc) \<in> set calls))
       \<and> (keyPath hcc = [] \<or> certPath hcc = [] \<longrightarrow>
          (\<exists>(client :: 'ctx HTTPClient_t) tr cfg calls.
              NewHTTPClientWithOpts w gitlabURL root caFile' caPath' t opts = ((Some client, None), calls)
              \<and> Transport (HTTPClient (RetryableHTTP client)) = NewTransport (Some tr)
              \<and> TLSClientConfig tr = Some cfg
              \<and> Certificates cfg = []
              \<and> (\<forall>c k. LoadX509KeyPair c k \<notin> set calls)))
       \<and> keyPath (applyOpts (opts @ [WithClientCert certFile keyFile]) (initialCfg caFile' caPath'))
            = keyFile
       \<and> certPath (applyOpts (opts @ [WithClientCert certFile keyFile]) (initialCfg caFile' caPath'))
            = certFile
       \<and> keyPath (applyOpts [] (initialCfg caFile' caPath')) = []
       \<and> certPath (applyOpts [] (initialCfg caFile' caPath')) = []"
proof -
  have 1: "\<exists>(client :: 'ctx HTTPClient_t) tr cfg calls.
              NewHTTPClientWithOpts w gitlabURL root caFile' caPath' t opts = ((Some client, None), calls)
              \<and> Transport (HTTPClient (RetryableHTTP client)) = NewTransport (Some tr)
              \<and> TLSClientConfig tr = Some cfg
              \<and> Certificates cfg = [cert]
              \<and> LoadX509KeyPair (certPath hcc) (keyPath hcc) \<in> set calls"
    if "keyPath hcc \<noteq> [] \<and> certPath hcc \<noteq> []
            \<and> tls_LoadX509KeyPair w (certPath hcc) (keyPath hcc) = Inr cert"
  proof -
    have k: "HaveCertAndKey (applyOpts opts (initialCfg caFile' caPath'))"
      using that assms(4) by (simp add: HaveCertAndKey_def)
    have l: "tls_LoadX509KeyPair w (certPath (applyOpts opts (initialCfg caFile' caPath')))
           (keyPath (applyOpts opts (initialCfg caFile' caPath'))) = Inr cert"
      using that assms(4) by simp
    let ?cfg = "\<lparr>RootCAs = fst (fst (buildCertPool w (applyOpts opts (initialCfg caFile' caPath')))),
                 MinVersion = tls_VersionTLS12, Certificates = [cert]\<rparr>"
    let ?tr = "\<lparr>DialContext = None, TLSClientConfig = Some ?cfg\<rparr> :: 'ctx http_Transport"
    let ?client = "assemble (applyOpts opts (initialCfg caFile' caPath')) (Some ?tr) gitlabURL t"
    let ?calls = "snd (validateCaFile w caFile')
              @ snd (buildCertPool w (applyOpts opts (initialCfg caFile' caPath')))
              @ [LoadX509KeyPair (certPath hcc) (keyPath hcc)]"
    have "NewHTTPClientWithOpts w gitlabURL root caFile' caPath' t opts = ((Some ?client, None), ?calls)"
      using New_https_cert [OF assms(1) assms(2) assms(3) k l, of root t, where ?'a = 'ctx]
      by (simp add: assms(4))
    moreover have "Transport (HTTPClient (RetryableHTTP ?client)) = NewTransport (Some ?tr)"
      by (simp add: assemble_fields)
    moreover have "TLSClientConfig ?tr = Some ?cfg" by simp
    moreover have "Certificates ?cfg = [cert]" by simp
    moreover have "LoadX509KeyPair (certPath hcc) (keyPath hcc) \<in> set ?calls" by simp
    ultimately show ?thesis by blast
  qed
  have 2: "\<exists>(client :: 'ctx HTTPClient_t) tr cfg calls.
              NewHTTPClientWithOpts w gitlabURL root caFile' caPath' t opts = ((Some client, None), calls)
              \<and> Transport (HTTPClient (RetryableHTTP client)) = NewTransport (Some tr)
              \<and> TLSClientConfig tr = Some cfg
              \<and> Certificates cfg = []
              \<and> (\<forall>c k. LoadX509KeyPair c k \<notin> set calls)"
    if "keyPath hcc = [] \<or> certPath hcc = []"
  proof -
    have k: "\<not> HaveCertAndKey (applyOpts opts (initialCfg caFile' caPath'))"
      using that assms(4) by (auto simp: HaveCertAndKey_def)
    have n: "\<forall>c k. LoadX509KeyPair c k \<notin> set (snd (validateCaFile w caFile')
              @ snd (buildCertPool w (applyOpts opts (initialCfg caFile' caPath'))))"
      using validateCaFile_calls [of w caFile'] buildCertPool_no_load by auto
    let ?cfg = "\<lparr>RootCAs = fst (fst (buildCertPool w (applyOpts opts (initialCfg caFile' caPath')))),
                 MinVersion = tls_VersionTLS12, Certificates = []\<rparr>"
    let ?tr = "\<lparr>DialContext = None, TLSClientConfig = Some ?cfg\<rparr> :: 'ctx http_Transport"
    let ?client = "assemble (applyOpts opts (initialCfg caFile' caPath')) (Some ?tr) gitlabURL t"
    let ?calls = "snd (validateCaFile w caFile')
              @ snd (buildCertPool w (applyOpts opts (initialCfg caFile' caPath')))"
    have "NewHTTPClientWithOpts w gitlabURL root caFile' caPath' t opts = ((Some ?client, None), ?calls)"
      using New_https_plain [OF assms(1) assms(2) assms(3) k, of root t, where ?'a = 'ctx]
      by simp
    moreover have "Transport (HTTPClient (RetryableHTTP ?client)) = NewTransport (Some ?tr)"
      by (simp add: assemble_fields)
    moreover have "TLSClientConfig ?tr = Some ?cfg" by simp
    moreover have "Certificates ?cfg = []" by simp
    ultimately show ?thesis using n by blast
  qed
  have 3: "applyOpts (opts @ [opt]) c0 = opt (applyOpts opts c0)" for opt c0
    by (induction opts arbitrary: c0) simp_all
  show ?thesis
    using 1 2 by (simp add: 3 WithClientCert_def initialCfg_def)
qed

theorem client_certificate_attached_witness:
  "HasPrefix ''https://gitlab.example.com'' httpsProtocol
   \<and> fst (validateCaFile machine ''/etc/gitlab/ca.pem'') = None
   \<and> x509_SystemCertPool machine = Inr [''system root'']
   \<and> tls_LoadX509KeyPair machine ''/etc/gitlab/client.crt'' ''/etc/gitlab/client.key''
       = Inr \<lparr>Certificate = [''client certificate''], PrivateKey = ''client key''\<rparr>
   \<and> (\<exists>(client :: nat HTTPClient_t) tr cfg calls.
         NewHTTPClientWithOpts machine ''https://gitlab.example.com'' [] ''/etc/gitlab/ca.pem''
           ''/etc/gitlab/certs'' 10
           [WithClientCert ''/etc/gitlab/client.crt'' ''/etc/gitlab/client.key'']
           = ((Some client, None), calls)
         \<and> Transport (HTTPClient (RetryableHTTP client)) = NewTransport (Some tr)
         \<and> TLSClientConfig tr = Some cfg
         \<and> Certificates cfg = [\<lparr>Certificate = [''client certificate''], PrivateKey = ''client key''\<rparr>]
         \<and> LoadX509KeyPair ''/etc/gitlab/client.crt'' ''/etc/gitlab/client.key'' \<in> set calls)
   \<and> (\<exists>(client :: nat HTTPClient_t) tr cfg calls.
         NewHTTPClientWithOpts machine ''https://gitlab.example.com'' [] ''/etc/gitlab/ca.pem''
           ''/etc/gitlab/certs'' 10 [WithClientCert ''/etc/gitlab/client.crt'' []]
           = ((Some client, None), calls)
         \<and> Transport (HTTPClient (RetryableHTTP client)) = NewTransport (Some tr)
         \<and> TLSClientConfig tr = Some cfg
         \<and> Certificates cfg = []
         \<and> (\<forall>c k. LoadX509KeyPair c k \<notin> set calls))"
proof -
  have h1: "HasPrefix ''https://gitlab.example.com'' httpsProtocol"
    by (simp add: HasPrefix_def httpsProtocol_def)
  have h2: "fst (validateCaFile machine ''/etc/gitlab/ca.pem'') = None"
    by (simp add: validateCaFile_def machine_def)
  have h3: "x509_SystemCertPool machine = Inr [''system root'']"
    by (simp add: machine_def)
  have l: "tls_LoadX509KeyPair machine ''/etc/gitlab/client.crt'' ''/etc/gitlab/client.key''
       = Inr \<lparr>Certificate = [''client certificate''], PrivateKey = ''client key''\<rparr>"
    by (simp add: machine_def)
  have both: "\<exists>(client :: nat HTTPClient_t) tr cfg calls.
         NewHTTPClientWithOpts machine ''https://gitlab.example.com'' [] ''/etc/gitlab/ca.pem''
           ''/etc/gitlab/certs'' 10
           [WithClientCert ''/etc/gitlab/client.crt'' ''/etc/gitlab/client.key'']
           = ((Some client, None), calls)
         \<and> Transport (HTTPClient (RetryableHTTP client)) = NewTransport (Some tr)
         \<and> TLSClientConfig tr = Some cfg
         \<and> Certificates cfg = [\<lparr>Certificate = [''client certificate''], PrivateKey = ''client key''\<rparr>]
         \<and> LoadX509KeyPair ''/etc/gitlab/client.crt'' ''/etc/gitlab/client.key'' \<in> set calls"
    using client_certificate_attached [OF h1 h2 h3 refl,
        of "[WithClientCert ''/etc/gitlab/client.crt'' ''/etc/gitlab/client.key'']"
           "''/etc/gitlab/certs''"
           "\<lparr>Certificate = [''client certificate''], PrivateKey = ''client key''\<rparr>" "[]" 10,
        where ?'ctx = nat] l
    by (simp add: WithClientCert_def initialCfg_def)
  have one: "\<exists>(client :: nat HTTPClient_t) tr cfg calls.
         NewHTTPClientWithOpts machine ''https://gitlab.example.com'' [] ''/etc/gitlab/ca.pem''
           ''/etc/gitlab/certs'' 10 [WithClientCert ''/etc/gitlab/client.crt'' []]
           = ((Some client, None), calls)
         \<and> Transport (HTTPClient (RetryableHTTP client)) = NewTransport (Some tr)
         \<and> TLSClientConfig tr = Some cfg
         \<and> Certificates cfg = []
         \<and> (\<forall>c k. LoadX509KeyPair c k \<notin> set calls)"
    using client_certificate_attached [OF h1 h2 h3 refl,
        of "[WithClientCert ''/etc/gitlab/client.crt'' []]" "''/etc/gitlab/certs''" _ "[]" 10,
        where ?'ctx = nat]
    by (simp add: WithClientCert_def initialCfg_def)
  show ?thesis using h1 h2 h3 l both one by simp
qed

text \<open>
  C9. For a target URL that begins with \<^verbatim>\<open>https://\<close>, with a CA file that passes the
  check, an available system pool and no client certificate configured: when the CA
  directory holds a file with exactly one certificate, and every other entry is a
  subdirectory or a file that cannot be read or holds no certificate, the construction
  succeeds and the trust pool of the TLS configuration is the pool as it is after the
  system roots and the CA file, with that one certificate added.
\<close>

theorem caPath_scan_best_effort:
  assumes "HasPrefix gitlabURL httpsProtocol"
    and "fst (validateCaFile w caFile') = None"
    and "x509_SystemCertPool w = Inr sysPool"
    and "hcc = applyOpts opts (initialCfg caFile' caPath')"
    and "caFile hcc = caFile'" and "caPath hcc = caPath'" and "\<not> HaveCertAndKey hcc"
    and "caPath' \<noteq> []"
    and "valid \<in> set (fst (os_ReadDir w caPath'))" and "\<not> IsDir valid"
    and "os_ReadFile w (filepath_Clean w (filepath_Join w caPath' (Name valid))) = Inr pem"
    and "pem_certificates w pem = [c]"
    and "\<forall>fi \<in> set (fst (os_ReadDir w caPath')). fi \<noteq> valid \<longrightarrow>
           IsDir fi
           \<or> (\<forall>b. os_ReadFile w (filepath_Clean w (filepath_Join w caPath' (Name fi))) = Inr b
                   \<longrightarrow> pem_certificates w b = [])"
    and "pool1 = (if caFile' \<noteq> [] then fst (addCertToPool w sysPool caFile') else sysPool)"
  shows "\<exists>(client :: 'ctx HTTPClient_t) tr cfg calls.
           NewHTTPClientWithOpts w gitlabURL root caFile' caPath' t opts = ((Some client, None), calls)
           \<and> Transport (HTTPClient (RetryableHTTP client)) = NewTransport (Some tr)
           \<and> TLSClientConfig tr = Some cfg
           \<and> RootCAs cfg = AddCert pool1 c
           \<and> set (RootCAs cfg) = insert c (set pool1)"
proof -
  let ?hcc = "applyOpts opts (initialCfg caFile' caPath')"
  let ?fis = "fst (os_ReadDir w caPath')"
  let ?one = "\<lambda>fi. \<exists>pem. os_ReadFile w (filepath_Clean w (filepath_Join w caPath' (Name fi))) = Inr pem
                        \<and> pem_certificates w pem = [c]"
  have k: "\<not> HaveCertAndKey ?hcc" using assms(4,7) by simp
  have entries: "\<forall>fi \<in> set ?fis.
             IsDir fi
             \<or> (\<forall>b. os_ReadFile w (filepath_Clean w (filepath_Join w caPath' (Name fi))) = Inr b
                     \<longrightarrow> pem_certificates w b = [])
             \<or> ?one fi"
  proof
    fix fi
    assume m: "fi \<in> set ?fis"
    show "IsDir fi
             \<or> (\<forall>b. os_ReadFile w (filepath_Clean w (filepath_Join w caPath' (Name fi))) = Inr b
                     \<longrightarrow> pem_certificates w b = [])
             \<or> ?one fi"
    proof (cases "fi = valid")
      case True
      then have "?one fi" using assms(11,12) by blast
      then show ?thesis by blast
    next
      case False
      from assms(13) m
      have "fi \<noteq> valid \<longrightarrow>
           IsDir fi
           \<or> (\<forall>b. os_ReadFile w (filepath_Clean w (filepath_Join w caPath' (Name fi))) = Inr b
                   \<longrightarrow> pem_certificates w b = [])"
        by (rule bspec)
      then show ?thesis using False by blast
    qed
  qed
  have ex: "\<exists>fi \<in> set ?fis. \<not> IsDir fi \<and> ?one fi"
    using assms(9,10,11,12) by blast
  have scan: "fst (addCertsOfDir w caPath' ?fis pool1) = AddCert pool1 c"
    using addCertsOfDir_pool [OF entries, of pool1] ex by simp
  have pool: "fst (fst (buildCertPool w ?hcc)) = AddCert pool1 c"
    using assms(3,5,6,8,14) scan assms(4)
    by (cases "caFile' = []") (simp_all add: buildCertPool_pool Let_def)
  let ?cfg = "\<lparr>RootCAs = fst (fst (buildCertPool w ?hcc)),
               MinVersion = tls_VersionTLS12, Certificates = []\<rparr>"
  let ?tr = "\<lparr>DialContext = None, TLSClientConfig = Some ?cfg\<rparr> :: 'ctx http_Transport"
  let ?client = "assemble ?hcc (Some ?tr) gitlabURL t"
  let ?calls = "snd (validateCaFile w caFile') @ snd (buildCertPool w ?hcc)"
  have "NewHTTPClientWithOpts w gitlabURL root caFile' caPath' t opts = ((Some ?client, None), ?calls)"
    using New_https_plain [OF assms(1) assms(2) assms(3) k, of root t, where ?'a = 'ctx]
    by simp
  moreover have "Transport (HTTPClient (RetryableHTTP ?client)) = NewTransport (Some ?tr)"
    by (simp add: assemble_fields)
  moreover have "TLSClientConfig ?tr = Some ?cfg" by simp
  moreover have "RootCAs ?cfg = AddCert pool1 c" using pool by simp
  moreover have "set (RootCAs ?cfg) = insert c (set pool1)" using pool by (simp add: set_AddCert)
  ultimately show ?thesis by blast
qed

theorem caPath_scan_best_effort_witness:
  "HasPrefix ''https://gitlab.example.com'' httpsProtocol
   \<and> fst (os_ReadDir machine ''/etc/gitlab/certs'')
       = [\<lparr>Name = ''broken.pem'', IsDir = False\<rparr>, \<lparr>Name = ''old'', IsDir = True\<rparr>,
          \<lparr>Name = ''valid.pem'', IsDir = False\<rparr>]
   \<and> os_ReadFile machine ''/etc/gitlab/certs/broken.pem'' = Inr ''not a certificate''
   \<and> pem_certificates machine ''not a certificate'' = []
   \<and> os_ReadFile machine ''/etc/gitlab/certs/valid.pem'' = Inr ''PEM valid''
   \<and> pem_certificates machine ''PEM valid'' = [''directory CA'']
   \<and> (\<exists>(client :: nat HTTPClient_t) tr cfg calls.
         NewHTTPClientWithOpts machine ''https://gitlab.example.com'' [] [] ''/etc/gitlab/certs'' 0 []
           = ((Some client, None), calls)
         \<and> Transport (HTTPClient (RetryableHTTP client)) = NewTransport (Some tr)
         \<and> TLSClientConfig tr = Some cfg
         \<and> RootCAs cfg = [''system root'', ''directory CA''])"
proof -
  let ?valid = "\<lparr>Name = ''valid.pem'', IsDir = False\<rparr>"
  have h1: "HasPrefix ''https://gitlab.example.com'' httpsProtocol"
    by (simp add: HasPrefix_def httpsProtocol_def)
  have h2: "fst (validateCaFile machine []) = None"
    by (simp add: validateCaFile_def)
  have h3: "x509_SystemCertPool machine = Inr [''system root'']"
    by (simp add: machine_def)
  have h5: "caFile (applyOpts [] (initialCfg [] ''/etc/gitlab/certs'')) = []"
    by (simp add: initialCfg_def)
  have h6: "caPath (applyOpts [] (initialCfg [] ''/etc/gitlab/certs'')) = ''/etc/gitlab/certs''"
    by (simp add: initialCfg_def)
  have h7: "\<not> HaveCertAndKey (applyOpts [] (initialCfg [] ''/etc/gitlab/certs''))"
    by (simp add: initialCfg_def HaveCertAndKey_def)
  have h8: "''/etc/gitlab/certs'' \<noteq> []" by simp
  have d: "fst (os_ReadDir machine ''/etc/gitlab/certs'')
       = [\<lparr>Name = ''broken.pem'', IsDir = False\<rparr>, \<lparr>Name = ''old'', IsDir = True\<rparr>, ?valid]"
    by (simp add: machine_def)
  have h9: "?valid \<in> set (fst (os_ReadDir machine ''/etc/gitlab/certs''))"
    unfolding d by simp
  have h10: "\<not> IsDir ?valid" by simp
  have h11: "os_ReadFile machine (filepath_Clean machine
               (filepath_Join machine ''/etc/gitlab/certs'' (Name ?valid))) = Inr ''PEM valid''"
    by (simp add: machine_def)
  have h12: "pem_certificates machine ''PEM valid'' = [''directory CA'']"
    by (simp add: machine_def)
  have h13: "\<forall>fi \<in> set (fst (os_ReadDir machine ''/etc/gitlab/certs'')). fi \<noteq> ?valid \<longrightarrow>
           IsDir fi
           \<or> (\<forall>b. os_ReadFile machine (filepath_Clean machine
                      (filepath_Join machine ''/etc/gitlab/certs'' (Name fi))) = Inr b
                   \<longrightarrow> pem_certificates machine b = [])"
    unfolding d by (simp add: machine_def)
  have h14: "[''system root''] = (if ([]::string) \<noteq> []
               then fst (addCertToPool machine [''system root''] []) else [''system root''])"
    by simp
  have b: "os_ReadFile machine ''/etc/gitlab/certs/broken.pem'' = Inr ''not a certificate''"
    "pem_certificates machine ''not a certificate'' = []"
    "os_ReadFile machine ''/etc/gitlab/certs/valid.pem'' = Inr ''PEM valid''"
    by (simp_all add: machine_def)
  have a: "AddCert [''system root''] ''directory CA'' = [''system root'', ''directory CA'']"
    by (simp add: AddCert_def)
  have e: "\<exists>(client :: nat HTTPClient_t) tr cfg calls.
         NewHTTPClientWithOpts machine ''https://gitlab.example.com'' [] [] ''/etc/gitlab/certs'' 0 []
           = ((Some client, None), calls)
         \<and> Transport (HTTPClient (RetryableHTTP client)) = NewTransport (Some tr)
         \<and> TLSClientConfig tr = Some cfg
         \<and> RootCAs cfg = [''system root'', ''directory CA'']"
    using caPath_scan_best_effort [OF h1 h2 h3 refl h5 h6 h7 h8 h9 h10 h11 h12 h13 h14, of "[]" 0,
        where ?'ctx = nat]
    unfolding a by blast
  show ?thesis
    using h1 d b h12 e by blast
qed

text \<open>
  C7. The configuration starts with the retry defaults of one second, fifteen seconds and
  two attempts. The options are applied in the order given, each to the configuration
  left by the ones before it, so for each field the last option that sets it wins: a
  retry option at the end sets the three retry fields whatever came before, a retry
  option applied twice leaves the values of the second application, and a client
  certificate option after it leaves the retry fields alone. Every client returned
  carries the retry fields of the final configuration; with the single option
  (2s, 20s, 5) these are 2s, 20s and 5.
\<close>

theorem retry_options_last_writer_wins:
  "retryWaitMin (initialCfg caFile' caPath') = time_Second
   \<and> retryWaitMax (initialCfg caFile' caPath') = 15 * time_Second
   \<and> retryMax (initialCfg caFile' caPath') = 2
   \<and> applyOpts (opts @ [opt]) hcc = opt (applyOpts opts hcc)
   \<and> retryWaitMin (applyOpts (opts @ [WithHTTPRetryOpts waitMin waitMax maxAttempts]) hcc) = waitMin
   \<and> retryWaitMax (applyOpts (opts @ [WithHTTPRetryOpts waitMin waitMax maxAttempts]) hcc) = waitMax
   \<and> retryMax (applyOpts (opts @ [WithHTTPRetryOpts waitMin waitMax maxAttempts]) hcc) = maxAttempts
   \<and> applyOpts (opts @ [WithHTTPRetryOpts a b n, WithHTTPRetryOpts waitMin waitMax maxAttempts]) hcc
       = applyOpts (opts @ [WithHTTPRetryOpts waitMin waitMax maxAttempts]) hcc
   \<and> applyOpts (opts @ [WithClientCert certFile keyFile, WithClientCert certFile' keyFile']) hcc
       = applyOpts (opts @ [WithClientCert certFile' keyFile']) hcc
   \<and> retryWaitMin (applyOpts (opts @ [WithHTTPRetryOpts waitMin waitMax maxAttempts,
                                       WithClientCert certFile keyFile]) hcc) = waitMin
   \<and> retryWaitMax (applyOpts (opts @ [WithHTTPRetryOpts waitMin waitMax maxAttempts,
                                       WithClientCert certFile keyFile]) hcc) = waitMax
   \<and> retryMax (applyOpts (opts @ [WithHTTPRetryOpts waitMin waitMax maxAttempts,
                                   WithClientCert certFile keyFile]) hcc) = maxAttempts
   \<and> (NewHTTPClientWithOpts w gitlabURL root caFile' caPath' t opts = ((Some client, e), calls) \<longrightarrow>
        RetryWaitMin (RetryableHTTP client) = retryWaitMin (applyOpts opts (initialCfg caFile' caPath'))
        \<and> RetryWaitMax (RetryableHTTP client) = retryWaitMax (applyOpts opts (initialCfg caFile' caPath'))
        \<and> RetryMax (RetryableHTTP client) = retryMax (applyOpts opts (initialCfg caFile' caPath')))
   \<and> (NewHTTPClientWithOpts w gitlabURL root caFile' caPath' t
          [WithHTTPRetryOpts (2 * time_Second) (20 * time_Second) 5] = ((Some client', e'), calls') \<longrightarrow>
        RetryWaitMin (RetryableHTTP client') = 2 * time_Second
        \<and> RetryWaitMax (RetryableHTTP client') = 20 * time_Second
        \<and> RetryMax (RetryableHTTP client') = 5)"
proof -
  have snoc: "applyOpts (os @ [opt]) c0 = opt (applyOpts os c0)" for os opt c0
    by (induction os arbitrary: c0) simp_all
  have snoc2: "applyOpts (os @ [o1, o2]) c0 = o2 (o1 (applyOpts os c0))" for os o1 o2 c0
    by (induction os arbitrary: c0) simp_all
  have d: "retryWaitMin (initialCfg caFile' caPath') = time_Second
   \<and> retryWaitMax (initialCfg caFile' caPath') = 15 * time_Second
   \<and> retryMax (initialCfg caFile' caPath') = 2"
    by (simp add: initialCfg_def defaultRetryWaitMinimum_def defaultRetryWaitMaximum_def
        defaultRetryMax_def)
  have r: "retryWaitMin (applyOpts (opts @ [WithHTTPRetryOpts waitMin waitMax maxAttempts]) hcc) = waitMin
   \<and> retryWaitMax (applyOpts (opts @ [WithHTTPRetryOpts waitMin waitMax maxAttempts]) hcc) = waitMax
   \<and> retryMax (applyOpts (opts @ [WithHTTPRetryOpts waitMin waitMax maxAttempts]) hcc) = maxAttempts"
    by (simp add: snoc WithHTTPRetryOpts_def)
  have tw: "applyOpts (opts @ [WithHTTPRetryOpts a b n, WithHTTPRetryOpts waitMin waitMax maxAttempts]) hcc
       = applyOpts (opts @ [WithHTTPRetryOpts waitMin waitMax maxAttempts]) hcc"
    by (simp add: snoc snoc2 WithHTTPRetryOpts_def)
  have tc: "applyOpts (opts @ [WithClientCert certFile keyFile, WithClientCert certFile' keyFile']) hcc
       = applyOpts (opts @ [WithClientCert certFile' keyFile']) hcc"
    by (simp add: snoc snoc2 WithClientCert_def)
  have pf: "retryWaitMin (applyOpts (opts @ [WithHTTPRetryOpts waitMin waitMax maxAttempts,
                                       WithClientCert certFile keyFile]) hcc) = waitMin
   \<and> retryWaitMax (applyOpts (opts @ [WithHTTPRetryOpts waitMin waitMax maxAttempts,
                                       WithClientCert certFile keyFile]) hcc) = waitMax
   \<and> retryMax (applyOpts (opts @ [WithHTTPRetryOpts waitMin waitMax maxAttempts,
                                   WithClientCert certFile keyFile]) hcc) = maxAttempts"
    by (simp add: snoc2 WithHTTPRetryOpts_def WithClientCert_def)
  have cl: "RetryWaitMin (RetryableHTTP c) = retryWaitMin (applyOpts os (initialCfg caFile' caPath'))
        \<and> RetryWaitMax (RetryableHTTP c) = retryWaitMax (applyOpts os (initialCfg caFile' caPath'))
        \<and> RetryMax (RetryableHTTP c) = retryMax (applyOpts os (initialCfg caFile' caPath'))"
    if "NewHTTPClientWithOpts w gitlabURL root caFile' caPath' t os = ((Some c, x), y)"
    for c :: "'ctx HTTPClient_t" and os x y
    using New_Some [OF that] by (auto simp: assemble_fields)
  have c1: "RetryWaitMin (RetryableHTTP client) = retryWaitMin (applyOpts opts (initialCfg caFile' caPath'))
        \<and> RetryWaitMax (RetryableHTTP client) = retryWaitMax (applyOpts opts (initialCfg caFile' caPath'))
        \<and> RetryMax (RetryableHTTP client) = retryMax (applyOpts opts (initialCfg caFile' caPath'))"
    if "NewHTTPClientWithOpts w gitlabURL root caFile' caPath' t opts = ((Some client, e), calls)"
    using cl [OF that] .
  have c2: "RetryWaitMin (RetryableHTTP client') = 2 * time_Second
        \<and> RetryWaitMax (RetryableHTTP client') = 20 * time_Second
        \<and> RetryMax (RetryableHTTP client') = 5"
    if "NewHTTPClientWithOpts w gitlabURL root caFile' caPath' t
          [WithHTTPRetryOpts (2 * time_Second) (20 * time_Second) 5] = ((Some client', e'), calls')"
    using cl [OF that] by (simp add: WithHTTPRetryOpts_def)
  show ?thesis
    using d snoc [of opts opt hcc] r tw tc pf c1 c2 by blast
qed

theorem retry_options_last_writer_wins_witness:
  "\<exists>client :: nat HTTPClient_t.
     NewHTTPClientWithOpts machine ''http://localhost:8080'' [] [] [] 0
       [WithHTTPRetryOpts (2 * time_Second) (20 * time_Second) 5] = ((Some client, None), [])
     \<and> RetryWaitMin (RetryableHTTP client) = 2 * time_Second
     \<and> RetryWaitMax (RetryableHTTP client) = 20 * time_Second
     \<and> RetryMax (RetryableHTTP client) = 5"
proof -
  let ?opts = "[WithHTTPRetryOpts (2 * time_Second) (20 * time_Second) 5]"
  let ?client = "assemble (applyOpts ?opts (initialCfg [] []))
                   (Some \<lparr>DialContext = None, TLSClientConfig = None\<rparr>)
                   ''http://localhost:8080'' 0 :: nat HTTPClient_t"
  have h: "HasPrefix ''http://localhost:8080'' httpProtocol"
    by (simp add: HasPrefix_def httpProtocol_def)
  have n: "NewHTTPClientWithOpts machine ''http://localhost:8080'' [] [] [] 0 ?opts
             = ((Some ?client, None), [])"
    by (rule New_http [OF h])
  have "RetryWaitMin (RetryableHTTP ?client) = 2 * time_Second
        \<and> RetryWaitMax (RetryableHTTP ?client) = 20 * time_Second
        \<and> RetryMax (RetryableHTTP ?client) = 5"
    using n retry_options_last_writer_wins [of "[]" "[]" "[]" id "initialCfg [] []" 0 0 0 0 0 0
        "[]" "[]" "[]" "[]" machine "''http://localhost:8080''" "[]" 0 ?client None "[]" ?client None "[]"]
    by blast
  then show ?thesis using n by blast
qed

end
